theory Spec2Isabelle
  imports Main "HOL-Library.Word"
begin

section \<open>The goa application core (application.go)\<close>

text \<open>
  A shallow embedding of \<^verbatim>\<open>application.go\<close>: the Application, the composition of the
  middleware chain in \<^verbatim>\<open>NewHTTPRouterHandle\<close>, the per-request function it returns and the
  two standard error handlers.

  Go functions that act on a \<^verbatim>\<open>*Context\<close> become functions from the contents of the
  Context to its new contents (explicit state passing). Handlers, middleware and error
  handlers are values supplied by the user of the package, so they are arguments of the
  model: any function of the right type. The model covers calls that return; a handler
  that panics or never returns is outside it.
\<close>

subsection \<open>Errors and log records\<close>

text \<open>
  A non-nil Go \<^verbatim>\<open>error\<close>. The only thing the code asks of an error is its message
  (\<^verbatim>\<open>e.Error()\<close>) and whether its dynamic type is \<^verbatim>\<open>*BadRequestError\<close>
  (the type assertion in the two error handlers). The nil error is \<open>None\<close> of
  \<open>error option\<close>.
\<close>

datatype error = BadRequestError string | OtherError string

fun Error :: "error \<Rightarrow> string" where
  "Error (BadRequestError msg) = msg"
| "Error (OtherError msg) = msg"

text \<open>
  What the log15 loggers print: level, message and the key/value context. A context
  value is a string, an error, or a value the model does not render (\<open>Opaque\<close>: the
  \<^verbatim>\<open>interface{}\<close> that \<^verbatim>\<open>Use\<close> was given).
\<close>

datatype lvl = LvlCrit | LvlError | LvlInfo

datatype logval = Str string | Err error | Opaque

type_synonym log_record = "lvl \<times> string \<times> (string \<times> logval) list"

subsection \<open>Context\<close>

text \<open>
  Modelled from the spec: the Context type and its methods \<^verbatim>\<open>NewContext\<close>,
  \<^verbatim>\<open>Header\<close>, \<^verbatim>\<open>Respond\<close> and \<^verbatim>\<open>ResponseWritten\<close> are used by application.go but
  are not among the source files. The spec lists the attributes of a Context: path
  parameters, query parameters (a key may repeat), the decoded payload (optional, opaque
  to the core), the response-written flag, the cancellation signal and a logger.

  The record holds them together with the part of the environment that a request acts on
  through its Context: the response headers, the responses handed to the transport
  (\<open>Sent\<close>, one entry per call of \<^verbatim>\<open>Respond\<close>, in order, with the headers as they were at
  that moment), the error the transport answers a write with (\<open>WriteErr\<close>, \<open>None\<close> for a
  healthy connection) and the records that the global logger \<^verbatim>\<open>Log\<close> printed during the
  request (\<open>LogOutput\<close>).
\<close>

record response =
  status :: int
  headers :: "string \<rightharpoonup> string list"
  body :: string

record 'p Context =
  Params :: "string \<rightharpoonup> string"
  Query :: "string \<rightharpoonup> string list"
  Payload :: "'p option"
  CtxLogger :: "(string \<times> string) list"
  Header :: "string \<rightharpoonup> string list"
  Sent :: "response list"
  Done :: bool
  WriteErr :: "error option"
  LogOutput :: "log_record list"

text \<open>
  Modelled from the spec: \<^verbatim>\<open>NewContext(gctx, r, w, params, query, payload)\<close>. The fresh
  Context has the request state it is given, no response header, nothing sent, and a
  cancellation signal that has not fired (\<^verbatim>\<open>gctx\<close> comes from
  \<^verbatim>\<open>context.WithCancel(context.Background())\<close>). The response writer \<open>w\<close> is
  represented by the error it answers a write with.
\<close>

type_synonym ResponseWriter = "error option"

definition NewContext ::
  "ResponseWriter \<Rightarrow> (string \<rightharpoonup> string) \<Rightarrow> (string \<rightharpoonup> string list) \<Rightarrow> 'p option \<Rightarrow> 'p Context"
where
  "NewContext w params query payload =
     \<lparr>Params = params, Query = query, Payload = payload, CtxLogger = [],
      Header = Map.empty, Sent = [], Done = False, WriteErr = w, LogOutput = []\<rparr>"

text \<open>
  Modelled from the spec: \<^verbatim>\<open>ctx.ResponseWritten()\<close>, the response-written flag, which is
  set "as an observable side effect of writing output to the transport": it holds as
  soon as a response was handed to the transport.
\<close>

definition ResponseWritten :: "'p Context \<Rightarrow> bool" where
  "ResponseWritten c = (Sent c \<noteq> [])"

text \<open>
  Modelled from the spec: \<^verbatim>\<open>ctx.Respond(code, body)\<close> hands the status code, the
  current response headers and the body to the transport, and returns the transport's
  write error, if any. The spec leaves open what the transport does with a second
  response ("an error or last-write-wins"), so the model records every response.
\<close>

definition Respond :: "'p Context \<Rightarrow> int \<Rightarrow> string \<Rightarrow> error option \<times> 'p Context" where
  "Respond c code b =
     (WriteErr c, c\<lparr>Sent := Sent c @ [\<lparr>status = code, headers = Header c, body = b\<rparr>]\<rparr>)"

text \<open>\<^verbatim>\<open>c.Header().Set(key, value)\<close> of net/http: the key's values become the one value.\<close>

definition Header_Set :: "'p Context \<Rightarrow> string \<Rightarrow> string \<Rightarrow> 'p Context" where
  "Header_Set c k v = c\<lparr>Header := (Header c)(k \<mapsto> [v])\<rparr>"

text \<open>\<^verbatim>\<open>Log.Error(msg, "err", err)\<close> on the global logger, which has an empty context.\<close>

definition Log_Error :: "'p Context \<Rightarrow> string \<Rightarrow> error \<Rightarrow> 'p Context" where
  "Log_Error c msg err = c\<lparr>LogOutput := LogOutput c @ [(LvlError, msg, [(''err'', Err err)])]\<rparr>"

text \<open>The function \<^verbatim>\<open>cancel\<close> returned by \<^verbatim>\<open>context.WithCancel\<close>: the signal fires.\<close>

definition cancel :: "'p Context \<Rightarrow> 'p Context" where
  "cancel c = c\<lparr>Done := True\<rparr>"

subsection \<open>Handler, ErrorHandler, Middleware, Application\<close>

type_synonym 'p Handler = "'p Context \<Rightarrow> error option \<times> 'p Context"

type_synonym 'p ErrorHandler = "'p Context \<Rightarrow> error \<Rightarrow> 'p Context"

text \<open>
  \<^verbatim>\<open>Middleware\<close> is declared outside the source files; application.go applies a
  middleware to a Handler and gets a Handler (\<^verbatim>\<open>middleware = chain[ml-i-1](middleware)\<close>).
\<close>

type_synonym 'p Middleware = "'p Handler \<Rightarrow> 'p Handler"

text \<open>
  The Application struct. The embedded logger is represented by its key/value context.
  The router is an object of an external library that application.go only creates and
  hands to \<^verbatim>\<open>http.ListenAndServe\<close>; it is left out.
\<close>

record 'p Application =
  Logger :: "(string \<times> string) list"
  Name :: string
  ErrorHandler :: "'p ErrorHandler"
  Middleware :: "'p Middleware list"

subsection \<open>The standard error handlers\<close>

definition DefaultErrorHandler :: "'p ErrorHandler" where
  "DefaultErrorHandler c e =
     (let (status, c1) =
            (case e of
               BadRequestError _ \<Rightarrow> (400, Header_Set c ''Content-Type'' ''application/json'')
             | OtherError _ \<Rightarrow> (500, c))
      in case Respond c1 status (Error e) of
           (Some err, c2) \<Rightarrow> Log_Error c2 ''failed to send default error handler response'' err
         | (None, c2) \<Rightarrow> c2)"

definition TerseErrorHandler :: "'p ErrorHandler" where
  "TerseErrorHandler c e =
     (let (status, b, c1) =
            (case e of
               BadRequestError _ \<Rightarrow>
                 (400, Error e, Header_Set c ''Content-Type'' ''application/json'')
             | OtherError _ \<Rightarrow> (500, [], c))
      in case Respond c1 status b of
           (Some err, c2) \<Rightarrow> Log_Error c2 ''failed to send terse error handler response'' err
         | (None, c2) \<Rightarrow> c2)"

subsection \<open>Operations that may end the process\<close>

text \<open>
  The result of an operation that may call \<^verbatim>\<open>os.Exit\<close>: it returns a value or the process
  exits with a status code. Such an operation also yields the log records it printed.
\<close>

datatype 'a exec = Return 'a | Exit int

definition Fatal :: "string \<Rightarrow> (string \<times> logval) list \<Rightarrow> log_record list \<times> 'a exec" where
  "Fatal msg ctx = ([(LvlCrit, msg, ctx)], Exit 1)"

definition New :: "string \<Rightarrow> 'p Application" where
  "New name =
     \<lparr>Logger = [(''app'', name)], Name = name, ErrorHandler = DefaultErrorHandler,
      Middleware = []\<rparr>"

text \<open>
  \<^verbatim>\<open>Use\<close>. \<^verbatim>\<open>NewMiddleware\<close> is not among the source files: it is the parameter \<open>nm\<close>, which
  turns the value given to \<^verbatim>\<open>Use\<close> into a Middleware or returns an error.
\<close>

definition Use ::
  "('m \<Rightarrow> error + 'p Middleware) \<Rightarrow> 'p Application \<Rightarrow> 'm \<Rightarrow> log_record list \<times> 'p Application exec"
where
  "Use nm app middleware =
     (case nm middleware of
        Inl err \<Rightarrow> Fatal ''invalid middleware'' [(''middleware'', Opaque), (''err'', Err err)]
      | Inr m \<Rightarrow> ([], Return (app\<lparr>Middleware := Middleware app @ [m]\<rparr>)))"

definition SetErrorHandler :: "'p Application \<Rightarrow> 'p ErrorHandler \<Rightarrow> 'p Application" where
  "SetErrorHandler app handler = app\<lparr>ErrorHandler := handler\<rparr>"

text \<open>
  \<^verbatim>\<open>Run\<close>. \<^verbatim>\<open>http.ListenAndServe\<close> is the parameter \<open>listen\<close>: the error it returns for the
  address, \<open>None\<close> for nil.
\<close>

definition Run ::
  "(string \<Rightarrow> error option) \<Rightarrow> 'p Application \<Rightarrow> string \<Rightarrow> log_record list \<times> unit exec"
where
  "Run listen app addr =
     (let info = (LvlInfo, ''listen'', map (\<lambda>(k, v). (k, Str v)) (Logger app) @ [(''addr'', Str addr)])
      in case listen addr of
           Some err \<Rightarrow>
             (case Fatal ''startup failed'' [(''err'', Err err)] of (out, r) \<Rightarrow> (info # out, r))
         | None \<Rightarrow> ([info], Return ()))"

subsection \<open>NewHTTPRouterHandle\<close>

text \<open>
  The parts of \<^verbatim>\<open>*http.Request\<close> that the handle reads: the declared content length
  (an int64: a 64-bit word read as a signed number, -1 when the length is unknown), the
  body, and the parsed query string (\<^verbatim>\<open>r.URL.Query()\<close>). The route parameters
  \<^verbatim>\<open>httprouter.Params\<close> are a slice of key/value pairs.
\<close>

type_synonym int64 = "64 word"

record Request =
  ContentLength :: int64
  Body :: string
  URLQuery :: "string \<rightharpoonup> string list"

type_synonym Params = "(string \<times> string) list"

text \<open>
  The closure \<^verbatim>\<open>middleware\<close> (lines 117 to 122) around the handler \<open>h\<close>: an error of
  \<open>h\<close> goes to the error handler of the application, and the closure returns nil in
  every case. The closure holds the pointer \<^verbatim>\<open>app\<close> and reads \<^verbatim>\<open>app.ErrorHandler\<close> when it
  runs, so its argument is the Application as it is at that time.
\<close>

definition handle_errors :: "'p Application \<Rightarrow> 'p Handler \<Rightarrow> 'p Handler" where
  "handle_errors app h ctx =
     (case h ctx of
        (Some err, ctx') \<Rightarrow> (None, ErrorHandler app ctx' err)
      | (None, ctx') \<Rightarrow> (None, ctx'))"

text \<open>
  The loop \<^verbatim>\<open>for i := range chain { handler = chain[ml-i-1](handler) }\<close> (lines 123 to 125
  and again 160 to 162). The index \<open>ml - i - 1\<close> is within the chain for every \<open>i\<close> of the
  range, since \<open>ml\<close> is the length of the chain.
\<close>

definition apply_chain :: "'p Middleware list \<Rightarrow> nat \<Rightarrow> 'p Handler \<Rightarrow> 'p Handler" where
  "apply_chain chain ml handler =
     foldl (\<lambda>wrapped i. (chain ! (ml - i - 1)) wrapped) handler [0..<length chain]"

text \<open>The handler for a request whose payload did not decode (lines 156 to 159).\<close>

definition invalid_payload :: "error \<Rightarrow> 'p Handler" where
  \<open>invalid_payload err ctx =
     (None, snd (Respond ctx 400
        (''{"kind":"invalid request","msg":"invalid JSON: '' @ Error err @ ''"}'')))\<close>

text \<open>
  Lines 128 to 132: the route parameters go into a map, a later pair replacing an
  earlier one with the same key.
\<close>

definition collect_params :: "Params \<Rightarrow> (string \<rightharpoonup> string)" where
  "collect_params p = foldl (\<lambda>params (k, v). params(k \<mapsto> v)) Map.empty p"

text \<open>
  Lines 139 to 145, "Load body if any". The JSON decoder is the parameter \<open>dec\<close>: from
  the bytes of the body it yields an error or the decoded value, \<open>None\<close> when the document
  is \<^verbatim>\<open>null\<close>. The result is the pair of the variables \<^verbatim>\<open>payload\<close> and \<^verbatim>\<open>err\<close>.
\<close>

definition load_body ::
  "(string \<Rightarrow> error + 'p option) \<Rightarrow> Request \<Rightarrow> 'p option \<times> error option"
where
  "load_body dec r =
     (if 0 <s ContentLength r
      then (case dec (Body r) of
              Inl err \<Rightarrow> (None, Some err)
            | Inr payload \<Rightarrow> (payload, None))
      else (None, None))"

text \<open>
  Lines 153 to 163: the handler that runs. \<open>chain\<close> and \<open>ml\<close> are the variables set when
  the handle was built; \<open>middleware\<close> is the chain around the closure above.
\<close>

definition select_handler ::
  "'p Middleware list \<Rightarrow> nat \<Rightarrow> 'p Handler \<Rightarrow> error option \<Rightarrow> 'p Handler"
where
  "select_handler chain ml middleware err =
     (case err of
        None \<Rightarrow> middleware
      | Some e \<Rightarrow> apply_chain chain ml (invalid_payload e))"

text \<open>Lines 168 to 171, "Make sure a response is sent back to client".\<close>

definition ensure_response :: "'p Application \<Rightarrow> 'p Context \<Rightarrow> 'p Context" where
  "ensure_response app ctx =
     (if \<not> ResponseWritten ctx
      then ErrorHandler app ctx (OtherError ''unhandled request'')
      else ctx)"

text \<open>
  \<^verbatim>\<open>NewHTTPRouterHandle\<close>. \<open>app\<close> is the Application when the handle is built: the chain,
  its length and the logger are read from it then ("Setup middleware outside of
  closure"). The handle that is returned takes, besides the arguments of a
  \<^verbatim>\<open>httprouter.Handle\<close>, the Application as it is when the request arrives (\<open>store\<close>: what
  the pointer \<^verbatim>\<open>app\<close> refers to at that time), and yields the Context as the request
  leaves it. The query map is a copy of \<^verbatim>\<open>r.URL.Query()\<close>, entry by entry. The deferred
  \<^verbatim>\<open>cancel()\<close> runs last.

  Middleware are functions from handlers to handlers, so applying the chain when the
  handle is built or when the request runs gives the same handler. The slice \<^verbatim>\<open>chain\<close>
  shares its array with \<^verbatim>\<open>app.Middleware\<close>, but \<^verbatim>\<open>Use\<close> only appends, beyond the
  length that \<^verbatim>\<open>chain\<close> has, so the elements that the handle sees never change: the
  chain of the handle is the list of middleware at the time the handle is built.
\<close>

definition NewHTTPRouterHandle ::
  "(string \<Rightarrow> error + 'p option) \<Rightarrow> 'p Application \<Rightarrow> string \<Rightarrow> string \<Rightarrow> 'p Handler
     \<Rightarrow> ('p Application \<Rightarrow> ResponseWriter \<Rightarrow> Request \<Rightarrow> Params \<Rightarrow> 'p Context)"
where
  "NewHTTPRouterHandle dec app resName actName h =
     (let chain = Middleware app;
          ml = length chain;
          middleware = (\<lambda>store. apply_chain chain ml (handle_errors store h));
          logger = Logger app @ [(''ctrl'', resName), (''action'', actName)]
      in (\<lambda>store w r p.
            let params = collect_params p;
                query = URLQuery r;
                (payload, err) = load_body dec r;
                ctx = (NewContext w params query payload)\<lparr>CtxLogger := logger\<rparr>;
                handler = select_handler chain ml (middleware store) err;
                ctx1 = snd (handler ctx)
            in cancel (ensure_response store ctx1)))"

text \<open>
  Two views of a request inside the handle, for stating properties: the Context handed to
  the handler (the variable \<^verbatim>\<open>ctx\<close> of line 150) and the handler that is invoked at line
  166 (the variable \<^verbatim>\<open>handler\<close>).
\<close>

definition request_context ::
  "(string \<Rightarrow> error + 'p option) \<Rightarrow> 'p Application \<Rightarrow> string \<Rightarrow> string \<Rightarrow> ResponseWriter
     \<Rightarrow> Request \<Rightarrow> Params \<Rightarrow> 'p Context"
where
  "request_context dec app resName actName w r p =
     (NewContext w (collect_params p) (URLQuery r) (fst (load_body dec r)))
       \<lparr>CtxLogger := Logger app @ [(''ctrl'', resName), (''action'', actName)]\<rparr>"

definition effective_handler ::
  "(string \<Rightarrow> error + 'p option) \<Rightarrow> 'p Application \<Rightarrow> 'p Handler \<Rightarrow> 'p Application \<Rightarrow> Request
     \<Rightarrow> 'p Handler"
where
  "effective_handler dec app h store r =
     (let chain = Middleware app;
          ml = length chain
      in select_handler chain ml (apply_chain chain ml (handle_errors store h))
           (snd (load_body dec r)))"

subsection \<open>The composition rule and a sequence of registrations\<close>

text \<open>
  The composition rule in the words of the specification,
  \<^verbatim>\<open>chain[0](chain[1](...chain[n-1](terminal)...))\<close>: the first middleware of the list is
  the outermost wrapper, the last one is next to the terminal handler. The loop of the
  source, \<open>apply_chain\<close>, is compared with it below.
\<close>

primrec first_outermost :: "'p Middleware list \<Rightarrow> 'p Handler \<Rightarrow> 'p Handler" where
  "first_outermost [] terminal = terminal"
| "first_outermost (m # ms) terminal = m (first_outermost ms terminal)"

text \<open>
  Calls of \<^verbatim>\<open>Use\<close> one after the other (\<^verbatim>\<open>api.Use(SomeMiddleware())\<close>,
  \<^verbatim>\<open>api.Use(SomeOtherMiddleware())\<close> in the comment of the Application type). Nothing
  runs after a call that exits.
\<close>

fun Use_all ::
  "('m \<Rightarrow> error + 'p Middleware) \<Rightarrow> 'p Application \<Rightarrow> 'm list
     \<Rightarrow> log_record list \<times> 'p Application exec"
where
  "Use_all nm app [] = ([], Return app)"
| "Use_all nm app (x # xs) =
     (case Use nm app x of
        (out, Return app') \<Rightarrow> (case Use_all nm app' xs of (out', res) \<Rightarrow> (out @ out', res))
      | (out, Exit n) \<Rightarrow> (out, Exit n))"

subsection \<open>The exported operations\<close>

text \<open>
  Every exported function of application.go, and a request through a handle that
  NewHTTPRouterHandle returned, as one operation of the process. \<open>perform\<close> runs an
  operation with the definitions above: it yields the log records printed and either
  what the operation returned or the exit of the process. The collaborators that are not
  among the source files are its parameters (\<^verbatim>\<open>NewMiddleware\<close>, \<^verbatim>\<open>http.ListenAndServe\<close>,
  the JSON decoder). Handlers, middleware and error handlers are taken to return, as
  everywhere in this model.
\<close>

datatype 'p returned =
    Returned_Application "'p Application"
  | Returned_Handle "'p Application \<Rightarrow> ResponseWriter \<Rightarrow> Request \<Rightarrow> Params \<Rightarrow> 'p Context"
  | Returned_Context "'p Context"
  | Returned_nothing

datatype ('m, 'p) operation =
    Call_New string
  | Call_Use "'p Application" 'm
  | Call_SetErrorHandler "'p Application" "'p ErrorHandler"
  | Call_Run "'p Application" string
  | Call_NewHTTPRouterHandle "'p Application" string string "'p Handler"
  | Call_handle "'p Application" string string "'p Handler" "'p Application" ResponseWriter
      Request Params
  | Call_DefaultErrorHandler "'p Context" error
  | Call_TerseErrorHandler "'p Context" error
  | Call_Fatal string "(string \<times> logval) list"

fun returning ::
  "('a \<Rightarrow> 'b) \<Rightarrow> log_record list \<times> 'a exec \<Rightarrow> log_record list \<times> 'b exec"
where
  "returning f (out, Return x) = (out, Return (f x))"
| "returning f (out, Exit n) = (out, Exit n)"

fun perform ::
  "('m \<Rightarrow> error + 'p Middleware) \<Rightarrow> (string \<Rightarrow> error option) \<Rightarrow> (string \<Rightarrow> error + 'p option)
     \<Rightarrow> ('m, 'p) operation \<Rightarrow> log_record list \<times> 'p returned exec"
where
  "perform nm listen dec (Call_New name) = ([], Return (Returned_Application (New name)))"
| "perform nm listen dec (Call_Use app middleware) =
     returning Returned_Application (Use nm app middleware)"
| "perform nm listen dec (Call_SetErrorHandler app handler) =
     ([], Return (Returned_Application (SetErrorHandler app handler)))"
| "perform nm listen dec (Call_Run app addr) =
     returning (\<lambda>u. Returned_nothing) (Run listen app addr)"
| "perform nm listen dec (Call_NewHTTPRouterHandle app resName actName h) =
     ([], Return (Returned_Handle (NewHTTPRouterHandle dec app resName actName h)))"
| "perform nm listen dec (Call_handle app resName actName h store w r p) =
     ([], Return (Returned_Context (NewHTTPRouterHandle dec app resName actName h store w r p)))"
| "perform nm listen dec (Call_DefaultErrorHandler c e) =
     ([], Return (Returned_Context (DefaultErrorHandler c e)))"
| "perform nm listen dec (Call_TerseErrorHandler c e) =
     ([], Return (Returned_Context (TerseErrorHandler c e)))"
| "perform nm listen dec (Call_Fatal msg ctx) = Fatal msg ctx"

subsection \<open>Example inputs\<close>

text \<open>
  Concrete handlers, middleware, requests and collaborators, on which the properties below
  are evaluated. The payload type is \<open>nat\<close>.
\<close>

text \<open>\<^verbatim>\<open>Header().Add\<close> of net/http: one more value for the key.\<close>

definition Header_Add :: "'p Context \<Rightarrow> string \<Rightarrow> string \<Rightarrow> 'p Context" where
  "Header_Add c k v =
     c\<lparr>Header := (Header c)(k \<mapsto> (case Header c k of None \<Rightarrow> [v] | Some vs \<Rightarrow> vs @ [v]))\<rparr>"

text \<open>
  An instrumented middleware: it notes its name in the response header X-Trace before it
  calls the wrapped handler and again after the handler has returned.
\<close>

definition tag :: "string \<Rightarrow> nat Middleware" where
  "tag t k c =
     (case k (Header_Add c ''X-Trace'' (''>'' @ t)) of
        (e, c') \<Rightarrow> (e, Header_Add c' ''X-Trace'' (''<'' @ t)))"

text \<open>A middleware that never calls the wrapped handler and returns an error.\<close>

definition deny :: "nat Middleware" where
  "deny k c = (Some (OtherError ''denied''), c)"

text \<open>
  Handlers: one that returns nil without a response, one that answers 201, one that
  returns an error, one that answers 200 when there is a payload and 204 when there is
  none.
\<close>

definition idle :: "nat Handler" where
  "idle c = (None, c)"

definition created :: "nat Handler" where
  "created c = Respond c 201 ''created''"

definition failing :: "nat Handler" where
  "failing c = (Some (OtherError ''boom''), c)"

definition report_payload :: "nat Handler" where
  "report_payload c = Respond c (case Payload c of None \<Rightarrow> 204 | Some _ \<Rightarrow> 200) []"

text \<open>
  Collaborators: a \<^verbatim>\<open>NewMiddleware\<close> that accepts a middleware and rejects anything else
  (\<open>None\<close>: a value of another type), a decoder that knows the documents \<^verbatim>\<open>null\<close> and
  \<^verbatim>\<open>1\<close>, and a \<^verbatim>\<open>ListenAndServe\<close> that cannot bind the address.
\<close>

definition as_middleware :: "nat Middleware option \<Rightarrow> error + nat Middleware" where
  "as_middleware v =
     (case v of Some m \<Rightarrow> Inr m | None \<Rightarrow> Inl (OtherError ''invalid middleware''))"

definition decode_number :: "string \<Rightarrow> error + nat option" where
  "decode_number b =
     (if b = ''null'' then Inr None
      else if b = ''1'' then Inr (Some 1)
      else Inl (OtherError ''invalid character''))"

definition refuse :: "string \<Rightarrow> error option" where
  "refuse addr = Some (OtherError ''address already in use'')"

text \<open>
  Applications: a new one, one with the middleware \<open>deny\<close>, one with two instrumented
  middleware. A fresh Context.
\<close>

definition api :: "nat Application" where
  "api = New ''api''"

definition guarded :: "nat Application" where
  "guarded = api\<lparr>Middleware := [deny]\<rparr>"

definition traced :: "nat Application" where
  "traced = api\<lparr>Middleware := [tag ''a'', tag ''b'']\<rparr>"

definition fresh :: "nat Context" where
  "fresh = NewContext None Map.empty Map.empty None"

text \<open>
  Requests: one without a body, one with the body \<^verbatim>\<open>1\<close>, one with the body \<^verbatim>\<open>{\<close>, and
  one with the body \<^verbatim>\<open>1\<close> whose length is not declared (content length -1).
\<close>

definition get_request :: Request where
  "get_request = \<lparr>ContentLength = 0, Body = [], URLQuery = Map.empty\<rparr>"

definition post_one :: Request where
  "post_one = \<lparr>ContentLength = 1, Body = ''1'', URLQuery = Map.empty\<rparr>"

definition post_brace :: Request where
  "post_brace = \<lparr>ContentLength = 1, Body = ''{'', URLQuery = Map.empty\<rparr>"

definition chunked_one :: Request where
  "chunked_one = \<lparr>ContentLength = - 1, Body = ''1'', URLQuery = Map.empty\<rparr>"

section \<open>Properties\<close>

subsection \<open>Auxiliary facts\<close>

lemmas eval_defs =
  request_context_def load_body_def ensure_response_def handle_errors_def
  invalid_payload_def collect_params_def NewContext_def ResponseWritten_def Respond_def
  Header_Set_def Log_Error_def cancel_def New_def Use_def Fatal_def

lemmas example_defs =
  Header_Add_def tag_def deny_def idle_def created_def failing_def report_payload_def
  as_middleware_def decode_number_def refuse_def api_def guarded_def traced_def fresh_def
  get_request_def post_one_def post_brace_def chunked_one_def

lemma sless_pos: "(0 <s (x::int64)) = (0 < sint x)"
  by (simp add: word_sless_alt)

lemma Sent_DefaultErrorHandler:
  "Sent (DefaultErrorHandler c e) =
     Sent c @ [\<lparr>status = (case e of BadRequestError _ \<Rightarrow> 400 | OtherError _ \<Rightarrow> 500),
               headers = (case e of
                            BadRequestError _ \<Rightarrow> (Header c)(''Content-Type'' \<mapsto> [''application/json''])
                          | OtherError _ \<Rightarrow> Header c),
               body = Error e\<rparr>]"
  by (cases e; cases "WriteErr c")
     (simp_all add: DefaultErrorHandler_def Respond_def Header_Set_def Log_Error_def)

lemma Sent_TerseErrorHandler:
  "Sent (TerseErrorHandler c e) =
     Sent c @ [\<lparr>status = (case e of BadRequestError _ \<Rightarrow> 400 | OtherError _ \<Rightarrow> 500),
               headers = (case e of
                            BadRequestError _ \<Rightarrow> (Header c)(''Content-Type'' \<mapsto> [''application/json''])
                          | OtherError _ \<Rightarrow> Header c),
               body = (case e of BadRequestError msg \<Rightarrow> msg | OtherError _ \<Rightarrow> [])\<rparr>]"
  by (cases e; cases "WriteErr c")
     (simp_all add: TerseErrorHandler_def Respond_def Header_Set_def Log_Error_def)

lemma handle_unfold:
  "NewHTTPRouterHandle dec app resName actName h store w r p =
     cancel (ensure_response store
       (snd (effective_handler dec app h store r (request_context dec app resName actName w r p))))"
  by (simp add: NewHTTPRouterHandle_def effective_handler_def request_context_def Let_def
      split_def)

text \<open>The loop of the source builds the composition that the specification writes.\<close>

lemma apply_chain_first_outermost:
  "apply_chain chain (length chain) handler = first_outermost chain handler"
proof -
  have "map (\<lambda>i. chain ! (length chain - i - 1)) [0..<length chain] = rev chain"
    by (rule nth_equalityI) (simp_all add: rev_nth)
  moreover have
    "foldl (\<lambda>wrapped i. (chain ! (length chain - i - 1)) wrapped) handler [0..<length chain] =
     foldl (\<lambda>wrapped m. m wrapped) handler
       (map (\<lambda>i. chain ! (length chain - i - 1)) [0..<length chain])"
    by (simp add: foldl_map)
  moreover have "foldr (\<lambda>m k. m k) chain handler = first_outermost chain handler"
    by (induction chain) simp_all
  ultimately show ?thesis
    by (simp add: apply_chain_def foldl_conv_foldr)
qed

lemma effective_handler_eq:
  "effective_handler dec app h store r =
     first_outermost (Middleware app)
       (case snd (load_body dec r) of
          None \<Rightarrow> handle_errors store h
        | Some e \<Rightarrow> invalid_payload e)"
  by (simp add: effective_handler_def select_handler_def Let_def apply_chain_first_outermost
      split: option.split)

text \<open>Registration: accepted values are appended in order, and nothing else changes.\<close>

lemma Use_all_accepts:
  "map nm xs = map Inr ms \<Longrightarrow>
     Use_all nm app xs = ([], Return (app\<lparr>Middleware := Middleware app @ ms\<rparr>))"
proof (induction xs arbitrary: app ms)
  case Nil
  then show ?case by simp
next
  case (Cons x xs)
  then obtain m ms' where ms: "ms = m # ms'" "nm x = Inr m" "map nm xs = map Inr ms'"
    by (cases ms) auto
  show ?case
    using Cons.IH [OF ms(3)] ms by (simp add: Use_def)
qed

lemma Use_all_Return:
  "snd (Use_all nm app xs) = Return app' \<Longrightarrow>
     \<exists>ms. map nm xs = map Inr ms \<and> app' = app\<lparr>Middleware := Middleware app @ ms\<rparr>"
proof (induction xs arbitrary: app)
  case Nil
  then show ?case by simp
next
  case (Cons x xs)
  show ?case
  proof (cases "nm x")
    case (Inl e)
    with Cons.prems show ?thesis by (simp add: Use_def Fatal_def)
  next
    case (Inr m)
    with Cons.prems
    have "snd (Use_all nm (app\<lparr>Middleware := Middleware app @ [m]\<rparr>) xs) = Return app'"
      by (simp add: Use_def split: prod.splits)
    from Cons.IH [OF this] obtain ms where
      "map nm xs = map Inr ms" "app' = app\<lparr>Middleware := Middleware app @ [m] @ ms\<rparr>"
      by auto
    with Inr show ?thesis
      by (intro exI [of _ "m # ms"]) simp
  qed
qed

text \<open>The handle reads nothing but the error handler from the Application of the request.\<close>

lemma handle_errors_cong:
  "ErrorHandler store' = ErrorHandler store \<Longrightarrow> handle_errors store' h = handle_errors store h"
  by (intro ext) (simp add: handle_errors_def split: prod.split option.split)

lemma effective_handler_cong:
  "ErrorHandler store' = ErrorHandler store \<Longrightarrow>
     effective_handler dec app h store' r = effective_handler dec app h store r"
  using handle_errors_cong [of store' store h] by (simp add: effective_handler_def)

lemma handle_cong:
  assumes "ErrorHandler store' = ErrorHandler store"
  shows "NewHTTPRouterHandle dec app resName actName h store' w r p
      = NewHTTPRouterHandle dec app resName actName h store w r p"
  by (simp add: handle_unfold ensure_response_def effective_handler_cong [OF assms] assms)

lemma ErrorHandler_api: "ErrorHandler api = DefaultErrorHandler"
  by (simp add: api_def New_def)

subsection \<open>The request nobody answered\<close>

text \<open>
  C1. For every request that goes through a handle built by NewHTTPRouterHandle: if no
  response has been written once the composed handler has run, the error handler that the
  Application has at that time is called with the Context as the handler left it and an
  error whose message is "unhandled request"; the handle returns what the error handler
  made of the Context (with the cancellation signal fired).
\<close>

theorem unhandled_request_reaches_error_handler:
  assumes "\<not> ResponseWritten
       (snd (effective_handler dec app h store r (request_context dec app resName actName w r p)))"
  shows "NewHTTPRouterHandle dec app resName actName h store w r p =
       cancel (ErrorHandler store
         (snd (effective_handler dec app h store r (request_context dec app resName actName w r p)))
         (OtherError ''unhandled request''))"
  using assms by (simp add: handle_unfold ensure_response_def)

theorem unhandled_request_reaches_error_handler_witness:
  "\<not> ResponseWritten
       (snd (effective_handler decode_number api idle api get_request
          (request_context decode_number api ''res'' ''act'' None get_request [])))
   \<and> map status (Sent (NewHTTPRouterHandle decode_number api ''res'' ''act'' idle api None get_request []))
       = [500]
   \<and> map body (Sent (NewHTTPRouterHandle decode_number api ''res'' ''act'' idle api None get_request []))
       = [''unhandled request'']"
proof -
  have run: "snd (effective_handler decode_number api idle api get_request
          (request_context decode_number api ''res'' ''act'' None get_request []))
      = (NewContext None Map.empty Map.empty None)
          \<lparr>CtxLogger := [(''app'', ''api''), (''ctrl'', ''res''), (''action'', ''act'')]\<rparr>"
    by (simp add: effective_handler_eq example_defs eval_defs)
  have h: "\<not> ResponseWritten
       (snd (effective_handler decode_number api idle api get_request
          (request_context decode_number api ''res'' ''act'' None get_request [])))"
    by (simp add: run) (simp add: ResponseWritten_def NewContext_def)
  show ?thesis
    using unhandled_request_reaches_error_handler [OF h] h
    by (simp add: ErrorHandler_api run Sent_DefaultErrorHandler cancel_def NewContext_def)
qed

subsection \<open>The order of the middleware\<close>

text \<open>
  C2. Let the values \<open>xs\<close> be registered with Use in this order on an Application without
  middleware, NewMiddleware turning them into the middleware \<open>ms\<close>. Then the handler
  that a handle built from this Application runs is m0 (m1 (... (mn-1 w))), where m0, m1,
  ..., mn-1 are the elements of \<open>ms\<close>, for every length of the chain: the middleware registered first is the outermost
  wrapper, the one registered last is next to \<open>w\<close>. Here \<open>w\<close> is the wrapper around the
  terminal handler that passes its error to the error handler (for a payload that does
  not decode, the handler that answers 400).
\<close>

theorem first_registered_is_outermost:
  assumes "map nm xs = map Inr ms"
      and "Middleware app0 = []"
      and "snd (Use_all nm app0 xs) = Return app"
  shows "effective_handler dec app h store r =
           first_outermost ms
             (case snd (load_body dec r) of
                None \<Rightarrow> handle_errors store h
              | Some e \<Rightarrow> invalid_payload e)
    \<and> NewHTTPRouterHandle dec app resName actName h store w r p =
        cancel (ensure_response store
          (snd (first_outermost ms
                  (case snd (load_body dec r) of
                     None \<Rightarrow> handle_errors store h
                   | Some e \<Rightarrow> invalid_payload e)
                  (request_context dec app resName actName w r p))))"
proof -
  have "app = app0\<lparr>Middleware := Middleware app0 @ ms\<rparr>"
    using Use_all_accepts [OF assms(1), of app0] assms(3) by simp
  with assms(2) have "Middleware app = ms" by simp
  then show ?thesis by (simp add: handle_unfold effective_handler_eq)
qed

theorem first_registered_is_outermost_witness:
  "map as_middleware [Some (tag ''a''), Some (tag ''b'')] = map Inr [tag ''a'', tag ''b'']
   \<and> Middleware api = []
   \<and> snd (Use_all as_middleware api [Some (tag ''a''), Some (tag ''b'')]) = Return traced
   \<and> effective_handler decode_number traced created api get_request
       = tag ''a'' (tag ''b'' (handle_errors api created))
   \<and> Header (NewHTTPRouterHandle decode_number traced ''res'' ''act'' created api None get_request [])
        ''X-Trace'' = Some [''>a'', ''>b'', ''<b'', ''<a'']"
proof -
  have 1: "map as_middleware [Some (tag ''a''), Some (tag ''b'')] = map Inr [tag ''a'', tag ''b'']"
    by (simp add: as_middleware_def)
  have 2: "Middleware api = []"
    by (simp add: api_def New_def)
  have 3: "snd (Use_all as_middleware api [Some (tag ''a''), Some (tag ''b'')]) = Return traced"
    by (simp add: Use_def as_middleware_def traced_def api_def New_def)
  have 4: "snd (load_body decode_number get_request) = None"
    by (simp add: load_body_def get_request_def)
  note t = first_registered_is_outermost [OF 1 2 3, where dec = decode_number and h = created
      and store = api and r = get_request and resName = "''res''" and actName = "''act''"
      and w = None and p = "[]"]
  have eff: "effective_handler decode_number traced created api get_request
       = tag ''a'' (tag ''b'' (handle_errors api created))"
    using t [THEN conjunct1] by (simp add: 4)
  have run: "NewHTTPRouterHandle decode_number traced ''res'' ''act'' created api None get_request [] =
      cancel (ensure_response api
        (snd (tag ''a'' (tag ''b'' (handle_errors api created))
           (request_context decode_number traced ''res'' ''act'' None get_request []))))"
    using t [THEN conjunct2] by (simp add: 4)
  have hdr: "Header (NewHTTPRouterHandle decode_number traced ''res'' ''act'' created api None get_request [])
        ''X-Trace'' = Some [''>a'', ''>b'', ''<b'', ''<a'']"
    unfolding run by (simp add: tag_def Header_Add_def created_def eval_defs)
  show ?thesis
    by (intro conjI 1 2 3 eff hdr)
qed

subsection \<open>A payload that does not decode\<close>

text \<open>
  C3. For every request whose body goes through the decode step and fails it (the decoder
  returns the error \<open>e\<close>), the handler that runs is the fallback handler wrapped in the
  whole middleware chain of the handle, first middleware outermost as for the terminal
  handler. The fallback handler writes status 400 with the body
  \<^verbatim>\<open>{"kind":"invalid request","msg":"invalid JSON: <message of e>"}\<close> and returns nil.
  The terminal handler is not invoked: the outcome of the request is the same for any
  other terminal handler \<open>h'\<close>.
\<close>

theorem decode_failure_runs_fallback_through_chain:
  assumes "0 <s ContentLength r" and "dec (Body r) = Inl e"
  shows \<open>effective_handler dec app h store r = first_outermost (Middleware app) (invalid_payload e)
    \<and> invalid_payload e c =
        (None, c\<lparr>Sent := Sent c @
           [\<lparr>status = 400, headers = Header c,
             body = ''{"kind":"invalid request","msg":"invalid JSON: '' @ Error e @ ''"}''\<rparr>]\<rparr>)
    \<and> NewHTTPRouterHandle dec app resName actName h store w r p =
        cancel (ensure_response store
          (snd (first_outermost (Middleware app) (invalid_payload e)
                  (request_context dec app resName actName w r p))))
    \<and> NewHTTPRouterHandle dec app resName actName h store w r p =
        NewHTTPRouterHandle dec app resName actName h' store w r p\<close>
proof -
  have err: "snd (load_body dec r) = Some e"
    using assms by (simp add: load_body_def)
  have eff: "effective_handler dec app k store r =
      first_outermost (Middleware app) (invalid_payload e)" for k
    by (simp add: effective_handler_eq err)
  have fb: \<open>invalid_payload e c =
        (None, c\<lparr>Sent := Sent c @
           [\<lparr>status = 400, headers = Header c,
             body = ''{"kind":"invalid request","msg":"invalid JSON: '' @ Error e @ ''"}''\<rparr>]\<rparr>)\<close>
    by (simp add: invalid_payload_def Respond_def)
  show ?thesis
    using fb by (simp add: handle_unfold eff)
qed

theorem decode_failure_runs_fallback_through_chain_witness:
  \<open>0 <s ContentLength post_brace
   \<and> decode_number (Body post_brace) = Inl (OtherError ''invalid character'')
   \<and> map status (Sent (NewHTTPRouterHandle decode_number traced ''res'' ''act'' created api None post_brace []))
        = [400]
   \<and> map body (Sent (NewHTTPRouterHandle decode_number traced ''res'' ''act'' created api None post_brace []))
        = [''{"kind":"invalid request","msg":"invalid JSON: invalid character"}'']
   \<and> Header (NewHTTPRouterHandle decode_number traced ''res'' ''act'' created api None post_brace [])
        ''X-Trace'' = Some [''>a'', ''>b'', ''<b'', ''<a'']\<close>
proof -
  have 1: "0 <s ContentLength post_brace"
    by (simp add: post_brace_def sless_pos)
  have 2: "decode_number (Body post_brace) = Inl (OtherError ''invalid character'')"
    by (simp add: post_brace_def decode_number_def)
  have m: "Middleware traced = [tag ''a'', tag ''b'']"
    by (simp add: traced_def)
  note t = decode_failure_runs_fallback_through_chain
      [where dec = decode_number and r = post_brace
         and e = "OtherError ''invalid character''", OF 1 2,
       where app = traced and h = created and store = api
         and resName = "''res''" and actName = "''act''" and w = None and p = "[]"]
  have eq: "NewHTTPRouterHandle decode_number traced ''res'' ''act'' created api None post_brace [] =
      cancel (ensure_response api
        (snd (first_outermost (Middleware traced) (invalid_payload (OtherError ''invalid character''))
                (request_context decode_number traced ''res'' ''act'' None post_brace []))))"
    using t by (rule conjunct2 [THEN conjunct2, THEN conjunct1])
  show ?thesis
    unfolding eq by (simp add: 1 2 m tag_def Header_Add_def eval_defs)
qed

subsection \<open>Errors of the handler and of the middleware\<close>

text \<open>
  C4, as the code has it. When the terminal handler returns a non-nil error, the wrapper
  around it calls the error handler of the Application with the Context as the handler
  left it and that error, and returns nil to the middleware around it. What the composed
  handler (effective or fallback) itself returns is not looked at: whatever its outcome,
  the request goes on with the check for an unanswered request. So an error that a
  middleware returns is passed to no error handler.
\<close>

theorem handler_error_reaches_error_handler:
  "(h c = (Some err, c') \<longrightarrow> handle_errors store h c = (None, ErrorHandler store c' err))
   \<and> (effective_handler dec app h store r (request_context dec app resName actName w r p)
         = (outcome, ctx1)
        \<longrightarrow> NewHTTPRouterHandle dec app resName actName h store w r p
              = cancel (ensure_response store ctx1))"
  by (simp add: handle_errors_def handle_unfold)

theorem handler_error_reaches_error_handler_witness:
  "failing fresh = (Some (OtherError ''boom''), fresh)
   \<and> handle_errors api failing fresh = (None, DefaultErrorHandler fresh (OtherError ''boom''))
   \<and> effective_handler decode_number guarded created api get_request
        (request_context decode_number guarded ''res'' ''act'' None get_request [])
       = (Some (OtherError ''denied''),
          request_context decode_number guarded ''res'' ''act'' None get_request [])
   \<and> NewHTTPRouterHandle decode_number guarded ''res'' ''act'' created api None get_request []
       = cancel (ensure_response api
           (request_context decode_number guarded ''res'' ''act'' None get_request []))"
proof -
  have 1: "failing fresh = (Some (OtherError ''boom''), fresh)"
    by (simp add: failing_def)
  have 2: "effective_handler decode_number guarded created api get_request
        (request_context decode_number guarded ''res'' ''act'' None get_request [])
       = (Some (OtherError ''denied''),
          request_context decode_number guarded ''res'' ''act'' None get_request [])"
    by (simp add: effective_handler_eq guarded_def deny_def)
  show ?thesis
    using handler_error_reaches_error_handler
      [where h = failing and c = fresh and err = "OtherError ''boom''" and c' = fresh
         and store = api]
      handler_error_reaches_error_handler
      [where h = created and store = api and dec = decode_number and app = guarded
         and r = get_request and resName = "''res''" and actName = "''act''" and w = None
         and p = "[]" and outcome = "Some (OtherError ''denied'')"
         and ?ctx1.0 = "request_context decode_number guarded ''res'' ''act'' None get_request []"]
      1 2
    by (simp add: ErrorHandler_api)
qed

text \<open>
  End to end, without middleware: the error of the terminal handler is what the error
  handler answers with.
\<close>

lemma handler_error_end_to_end:
  "map body (Sent (NewHTTPRouterHandle decode_number api ''res'' ''act'' failing api None
      get_request []))
     = [''boom'']"
  by (simp add: handle_unfold effective_handler_eq example_defs eval_defs
      Sent_DefaultErrorHandler)

text \<open>
  The claim C4 as it is written fails for an error that a middleware returns. With the
  middleware \<open>deny\<close> the composed handler returns the error "denied"; the only response of
  the request carries "unhandled request", whereas the error handler called with that
  error would have sent "denied".
\<close>

theorem middleware_error_is_dropped:
  "fst (effective_handler decode_number guarded created api get_request
          (request_context decode_number guarded ''res'' ''act'' None get_request []))
     = Some (OtherError ''denied'')
   \<and> map body (Sent (NewHTTPRouterHandle decode_number guarded ''res'' ''act'' created api None
          get_request []))
     = [''unhandled request'']
   \<and> map body (Sent (ErrorHandler api
          (snd (effective_handler decode_number guarded created api get_request
             (request_context decode_number guarded ''res'' ''act'' None get_request [])))
          (OtherError ''denied'')))
     = [''denied'']"
  by (simp add: handle_unfold effective_handler_eq example_defs eval_defs
      Sent_DefaultErrorHandler)

subsection \<open>The standard error handlers\<close>

text \<open>
  C5. DefaultErrorHandler answers a \<^verbatim>\<open>*BadRequestError\<close> with status 400, the header
  Content-Type set to application/json and the error message as body, and any other
  error with status 500 and the error message as body. TerseErrorHandler gives the same
  status codes and the same answer to a \<^verbatim>\<open>*BadRequestError\<close>, but an empty body with
  status 500. Each handler hands exactly this one response to the transport.
\<close>

theorem error_handlers_status_and_body:
  "Sent (DefaultErrorHandler c (BadRequestError msg)) =
     Sent c @ [\<lparr>status = 400,
               headers = (Header c)(''Content-Type'' \<mapsto> [''application/json'']),
               body = msg\<rparr>]
   \<and> Sent (DefaultErrorHandler c (OtherError msg)) =
     Sent c @ [\<lparr>status = 500, headers = Header c, body = msg\<rparr>]
   \<and> Sent (TerseErrorHandler c (BadRequestError msg)) =
     Sent c @ [\<lparr>status = 400,
               headers = (Header c)(''Content-Type'' \<mapsto> [''application/json'']),
               body = msg\<rparr>]
   \<and> Sent (TerseErrorHandler c (OtherError msg)) =
     Sent c @ [\<lparr>status = 500, headers = Header c, body = []\<rparr>]"
  by (simp add: Sent_DefaultErrorHandler Sent_TerseErrorHandler)

text \<open>
  C8, as the code has it. A standard error handler that answers a \<^verbatim>\<open>*BadRequestError\<close>
  (status 400) sets Content-Type to application/json, so every response with a non-empty
  body that TerseErrorHandler emits carries it. With status 500 DefaultErrorHandler emits
  the error message with the response headers as they were before the call: it sets no
  Content-Type.
\<close>

theorem content_type_of_error_responses:
  "headers (last (Sent (DefaultErrorHandler c (BadRequestError msg)))) ''Content-Type''
     = Some [''application/json'']
   \<and> headers (last (Sent (TerseErrorHandler c (BadRequestError msg)))) ''Content-Type''
     = Some [''application/json'']
   \<and> (body (last (Sent (TerseErrorHandler c e))) \<noteq> [] \<longrightarrow>
        headers (last (Sent (TerseErrorHandler c e))) ''Content-Type''
          = Some [''application/json''])
   \<and> headers (last (Sent (DefaultErrorHandler c (OtherError msg)))) = Header c
   \<and> Header (DefaultErrorHandler c (OtherError msg)) = Header c"
proof -
  have "Header (DefaultErrorHandler c (OtherError msg)) = Header c"
    by (cases "WriteErr c") (simp_all add: DefaultErrorHandler_def Respond_def Log_Error_def)
  moreover have "body (last (Sent (TerseErrorHandler c e))) \<noteq> [] \<longrightarrow>
        headers (last (Sent (TerseErrorHandler c e))) ''Content-Type''
          = Some [''application/json'']"
    by (cases e) (simp_all add: Sent_TerseErrorHandler)
  ultimately show ?thesis
    by (simp add: Sent_DefaultErrorHandler Sent_TerseErrorHandler)
qed

theorem content_type_of_error_responses_witness:
  "body (last (Sent (TerseErrorHandler fresh (BadRequestError ''bad id'')))) \<noteq> []
   \<and> headers (last (Sent (TerseErrorHandler fresh (BadRequestError ''bad id'')))) ''Content-Type''
       = Some [''application/json'']"
proof -
  have 1: "body (last (Sent (TerseErrorHandler fresh (BadRequestError ''bad id'')))) \<noteq> []"
    by (simp add: Sent_TerseErrorHandler)
  show ?thesis
    using content_type_of_error_responses [of fresh "''bad id''" "BadRequestError ''bad id''"] 1
    by blast
qed

text \<open>
  The claim C8 as it is written fails for DefaultErrorHandler and an error that is not a
  \<^verbatim>\<open>*BadRequestError\<close>: on a fresh Context the response has status 500, the body "boom"
  and no Content-Type.
\<close>

theorem default_handler_500_has_no_content_type:
  "map body (Sent (DefaultErrorHandler fresh (OtherError ''boom''))) = [''boom'']
   \<and> map status (Sent (DefaultErrorHandler fresh (OtherError ''boom''))) = [500]
   \<and> map (\<lambda>s. headers s ''Content-Type'') (Sent (DefaultErrorHandler fresh (OtherError ''boom'')))
       = [None]"
  by (simp add: Sent_DefaultErrorHandler fresh_def NewContext_def)

subsection \<open>Cancellation\<close>

text \<open>
  C6. Whatever the request, the handler, the chain and the error handler are (normal
  completion, an error of the handler, a payload that does not decode, a request that
  nobody answered), the cancellation signal of the Context has fired when the handle
  returns.
\<close>

theorem cancellation_fires_on_every_path:
  "Done (NewHTTPRouterHandle dec app resName actName h store w r p)"
  by (simp add: handle_unfold cancel_def)

subsection \<open>Process exit\<close>

text \<open>What Run and Use yield, in full.\<close>

lemma Run_and_Use_outcomes:
  "Run listen app addr =
     ((LvlInfo, ''listen'', map (\<lambda>(k, v). (k, Str v)) (Logger app) @ [(''addr'', Str addr)]) #
        (case listen addr of
           None \<Rightarrow> []
         | Some err \<Rightarrow> [(LvlCrit, ''startup failed'', [(''err'', Err err)])]),
      (case listen addr of None \<Rightarrow> Return () | Some err \<Rightarrow> Exit 1))
   \<and> Use nm app x =
     (case nm x of
        Inl err \<Rightarrow>
          ([(LvlCrit, ''invalid middleware'', [(''middleware'', Opaque), (''err'', Err err)])],
           Exit 1)
      | Inr m \<Rightarrow> ([], Return (app\<lparr>Middleware := Middleware app @ [m]\<rparr>)))"
  by (simp add: Run_def Use_def Fatal_def split: option.split sum.split)

text \<open>
  C7, as the code has it. Among the exported operations of the core, the process exits in
  exactly three cases: a call of Fatal, a call of Run for which ListenAndServe returns an
  error, and a call of Use for a value that NewMiddleware rejects. The exit status is 1
  in each case, and the last log record before the exit is a critical one. Every other
  operation returns: New, SetErrorHandler, NewHTTPRouterHandle, a request through a
  handle (whatever the handler, the chain, the error handler and the request are), the two
  standard error handlers, Run when ListenAndServe returns nil and Use of a value that
  NewMiddleware accepts.
\<close>

theorem process_exits_in_fatal_run_and_use_only:
  "(snd (perform nm listen dec op) = Exit n) =
     (n = 1 \<and>
      ((\<exists>msg ctx. op = Call_Fatal msg ctx)
       \<or> (\<exists>app addr err. op = Call_Run app addr \<and> listen addr = Some err)
       \<or> (\<exists>app middleware err. op = Call_Use app middleware \<and> nm middleware = Inl err)))
   \<and> (snd (perform nm listen dec op) = Exit n \<longrightarrow>
        (\<exists>msg ctx. last (fst (perform nm listen dec op)) = (LvlCrit, msg, ctx)))"
  by (cases op)
     (auto simp add: Use_def Run_def Fatal_def Let_def split: option.splits sum.splits)

theorem process_exits_in_fatal_run_and_use_only_witness:
  "snd (perform as_middleware refuse decode_number (Call_Run api '':80'')) = Exit 1
   \<and> (\<exists>msg ctx. last (fst (perform as_middleware refuse decode_number (Call_Run api '':80'')))
         = (LvlCrit, msg, ctx))
   \<and> snd (perform as_middleware refuse decode_number (Call_SetErrorHandler api TerseErrorHandler))
       \<noteq> Exit 1
   \<and> snd (perform as_middleware refuse decode_number
         (Call_handle api ''res'' ''act'' failing api None get_request []))
       \<noteq> Exit 1"
proof -
  note t = process_exits_in_fatal_run_and_use_only
    [where nm = as_middleware and listen = refuse and dec = decode_number and n = 1]
  have 1: "snd (perform as_middleware refuse decode_number (Call_Run api '':80'')) = Exit 1"
    using t [where op = "Call_Run api '':80''", THEN conjunct1] by (simp add: refuse_def)
  have 2: "\<exists>msg ctx. last (fst (perform as_middleware refuse decode_number (Call_Run api '':80'')))
         = (LvlCrit, msg, ctx)"
    using t [where op = "Call_Run api '':80''", THEN conjunct2] 1 by blast
  have 3: "snd (perform as_middleware refuse decode_number
         (Call_SetErrorHandler api TerseErrorHandler))
       \<noteq> Exit 1"
    using t [where op = "Call_SetErrorHandler api TerseErrorHandler", THEN conjunct1] by simp
  have 4: "snd (perform as_middleware refuse decode_number
         (Call_handle api ''res'' ''act'' failing api None get_request []))
       \<noteq> Exit 1"
    using t [where op = "Call_handle api ''res'' ''act'' failing api None get_request []",
        THEN conjunct1]
    by simp
  show ?thesis
    by (intro conjI 1 2 3 4)
qed

text \<open>
  The claim C7 as it is written fails for Use: registering a value that NewMiddleware
  rejects ends the process.
\<close>

theorem use_exits_on_invalid_middleware:
  "snd (Use as_middleware api None) = Exit 1"
  by (simp add: Use_def as_middleware_def Fatal_def)

text \<open>Run with a listener that cannot bind ends the process as well.\<close>

lemma run_exits_when_listen_fails:
  "snd (Run refuse api '':80'') = Exit 1"
  by (simp add: Run_def refuse_def Fatal_def)

subsection \<open>When the body is decoded\<close>

text \<open>
  C9. The claim: the body is decoded if and only if the declared content length is not
  zero, the unknown length -1 included. The code does not do this for the length -1. The
  request \<open>chunked_one\<close> has a content length that is not zero and carries the body
  \<^verbatim>\<open>1\<close>, for which the decoder yields the payload 1. Under the comment "Load body if
  any" the guard is \<^verbatim>\<open>r.ContentLength > 0\<close>, so the body is not decoded: the handler
  finds no payload and answers 204. The same body with the declared length 1 is decoded,
  and the handler answers 200.
\<close>

theorem unknown_length_body_is_not_decoded:
  "ContentLength chunked_one \<noteq> 0
   \<and> Body chunked_one = Body post_one
   \<and> decode_number (Body chunked_one) = Inr (Some 1)
   \<and> load_body decode_number chunked_one = (None, None)
   \<and> Payload (request_context decode_number api ''res'' ''act'' None chunked_one []) = None
   \<and> map status (Sent (NewHTTPRouterHandle decode_number api ''res'' ''act'' report_payload api None
          chunked_one []))
       = [204]
   \<and> load_body decode_number post_one = (Some 1, None)
   \<and> map status (Sent (NewHTTPRouterHandle decode_number api ''res'' ''act'' report_payload api None
          post_one []))
       = [200]"
  by (simp add: handle_unfold effective_handler_eq example_defs eval_defs sless_pos)

text \<open>
  What the guard of line 142 does, for every request: with a positive content length the
  payload and the decode error are those of the decoder; with a content length that is
  zero or negative the decoder is not used, the payload is nil and there is no decode
  error.
\<close>

lemma load_body_guard:
  "(0 < sint (ContentLength r) \<longrightarrow>
      load_body dec r =
        (case dec (Body r) of Inl err \<Rightarrow> (None, Some err) | Inr payload \<Rightarrow> (payload, None))
      \<and> Payload (request_context dec app resName actName w r p) =
        (case dec (Body r) of Inl err \<Rightarrow> None | Inr payload \<Rightarrow> payload))
   \<and> (sint (ContentLength r) \<le> 0 \<longrightarrow>
        load_body dec r = (None, None)
        \<and> Payload (request_context dec app resName actName w r p) = None
        \<and> NewHTTPRouterHandle dec app resName actName h store w r p
            = NewHTTPRouterHandle dec' app resName actName h store w r p)"
proof -
  have "load_body dec r = (None, None)" "load_body dec' r = (None, None)"
    if "sint (ContentLength r) \<le> 0"
    using that by (simp_all add: load_body_def sless_pos)
  then show ?thesis
    by (simp add: load_body_def sless_pos handle_unfold effective_handler_eq request_context_def
        NewContext_def split: sum.split)
qed

subsection \<open>Middleware registered after the handle is built\<close>

text \<open>
  C10. A handle composes the middleware that the Application had when the handle was
  built. When more middleware is registered with Use afterwards (the Application
  \<open>store\<close> becomes \<open>store'\<close>), every request through the handle has the same outcome as
  before, on the normal path and on the path of a payload that does not decode, and the
  handler that runs is still composed of the chain of the Application at the time the
  handle was built.
\<close>

theorem later_use_does_not_change_handle:
  assumes "snd (Use_all nm store xs) = Return store'"
  shows "NewHTTPRouterHandle dec app resName actName h store' w r p
           = NewHTTPRouterHandle dec app resName actName h store w r p
    \<and> effective_handler dec app h store' r =
        first_outermost (Middleware app)
          (case snd (load_body dec r) of
             None \<Rightarrow> handle_errors store h
           | Some e \<Rightarrow> invalid_payload e)"
proof -
  from Use_all_Return [OF assms] have eh: "ErrorHandler store' = ErrorHandler store"
    by auto
  have "effective_handler dec app h store' r = effective_handler dec app h store r"
    by (rule effective_handler_cong [OF eh])
  then show ?thesis
    by (simp add: handle_cong [OF eh] effective_handler_eq)
qed

theorem later_use_does_not_change_handle_witness:
  "snd (Use_all as_middleware api [Some (tag ''a'')]) = Return (api\<lparr>Middleware := [tag ''a'']\<rparr>)
   \<and> NewHTTPRouterHandle decode_number api ''res'' ''act'' created (api\<lparr>Middleware := [tag ''a'']\<rparr>)
         None get_request []
       = NewHTTPRouterHandle decode_number api ''res'' ''act'' created api None get_request []
   \<and> Header (NewHTTPRouterHandle decode_number api ''res'' ''act'' created
         (api\<lparr>Middleware := [tag ''a'']\<rparr>) None get_request [])
        ''X-Trace'' = None
   \<and> Header (NewHTTPRouterHandle decode_number (api\<lparr>Middleware := [tag ''a'']\<rparr>) ''res'' ''act'' created
         (api\<lparr>Middleware := [tag ''a'']\<rparr>) None get_request [])
        ''X-Trace'' = Some [''>a'', ''<a'']"
proof -
  have 1: "snd (Use_all as_middleware api [Some (tag ''a'')]) = Return (api\<lparr>Middleware := [tag ''a'']\<rparr>)"
    by (simp add: Use_def as_middleware_def api_def New_def)
  note t = later_use_does_not_change_handle [OF 1, where dec = decode_number and app = api
      and resName = "''res''" and actName = "''act''" and h = created and w = None
      and r = get_request and p = "[]"]
  have eq: "NewHTTPRouterHandle decode_number api ''res'' ''act'' created (api\<lparr>Middleware := [tag ''a'']\<rparr>)
         None get_request []
       = NewHTTPRouterHandle decode_number api ''res'' ''act'' created api None get_request []"
    using t by (rule conjunct1)
  show ?thesis
    unfolding eq
    by (simp add: 1 handle_unfold effective_handler_eq example_defs eval_defs)
qed

end
